theory Spec2Isabelle
  imports Main "HOL-Library.State_Monad"
begin

section \<open>Python strings\<close>

text \<open>
  A Python \<^verbatim>\<open>str\<close> is a sequence of Unicode code points: slicing and \<^verbatim>\<open>len\<close> count
  code points, and the prompt template of \<^verbatim>\<open>url_analyzer.py\<close> holds characters beyond
  ASCII. A string is therefore a list of code points; \<open>str\<close> embeds an ASCII literal.
\<close>

type_synonym pystr = "nat list"

definition str :: "string \<Rightarrow> pystr" where
  "str s = map of_char s"

text \<open>\<^verbatim>\<open>s.startswith(p)\<close>, and \<^verbatim>\<open>sub in s\<close>: a case-sensitive test for a contiguous occurrence.\<close>

fun startswith :: "'a list \<Rightarrow> 'a list \<Rightarrow> bool" where
  "startswith s [] = True"
| "startswith [] (p # ps) = False"
| "startswith (c # cs) (p # ps) = (c = p \<and> startswith cs ps)"

fun contains :: "'a list \<Rightarrow> 'a list \<Rightarrow> bool" where
  "contains sub [] = (sub = [])"
| "contains sub (c # cs) = (startswith (c # cs) sub \<or> contains sub cs)"

text \<open>
  \<^verbatim>\<open>s.split(sep)\<close> cuts at the non-overlapping occurrences of \<open>sep\<close>, scanning from the
  left; \<open>acc\<close> is the piece being read. The program only splits at the non-empty literals
  \<^verbatim>\<open>'abs/'\<close>, \<^verbatim>\<open>'pdf/'\<close>, \<^verbatim>\<open>'/'\<close> and \<^verbatim>\<open>'v'\<close> (Python raises ValueError on an empty separator).
\<close>

function split_acc :: "'a list \<Rightarrow> 'a list \<Rightarrow> 'a list \<Rightarrow> 'a list list" where
  "split_acc sep acc [] = [acc]"
| "split_acc sep acc (c # cs) =
     (if sep \<noteq> [] \<and> startswith (c # cs) sep
      then acc # split_acc sep [] (drop (length sep) (c # cs))
      else split_acc sep (acc @ [c]) cs)"
  by pat_completeness auto
termination
  by (relation "measure (\<lambda>(sep, acc, s). length s)") (auto simp: neq_Nil_conv)

definition split_py :: "'a list \<Rightarrow> 'a list \<Rightarrow> 'a list list" where
  "split_py s sep = split_acc sep [] s"

text \<open>
  \<^verbatim>\<open>s.replace(old, new)\<close> rewrites every non-overlapping occurrence, from the left. The
  program only replaces the non-empty literal \<^verbatim>\<open>'.pdf'\<close>.
\<close>

function replace_py :: "'a list \<Rightarrow> 'a list \<Rightarrow> 'a list \<Rightarrow> 'a list" where
  "replace_py [] old new = []"
| "replace_py (c # cs) old new =
     (if old \<noteq> [] \<and> startswith (c # cs) old
      then new @ replace_py (drop (length old) (c # cs)) old new
      else c # replace_py cs old new)"
  by pat_completeness auto
termination
  by (relation "measure (\<lambda>(s, old, new). length s)") (auto simp: neq_Nil_conv)

text \<open>\<^verbatim>\<open>sep.join(xs)\<close>.\<close>

fun join_py :: "'a list \<Rightarrow> 'a list list \<Rightarrow> 'a list" where
  "join_py sep [] = []"
| "join_py sep [x] = x"
| "join_py sep (x # y # ys) = x @ sep @ join_py sep (y # ys)"

section \<open>Exceptions, dictionaries and collaborators\<close>

text \<open>
  Every exception below is an instance of Python's \<^verbatim>\<open>Exception\<close>, which is what the
  handlers of the program catch; \<open>exc_str e\<close> is \<^verbatim>\<open>str(e)\<close>, the text an f-string shows.
  \<open>Failure\<close> stands for any error of a library call (connection error, timeout, HTTP
  error status, API error).
\<close>

datatype pyexc = TypeError pystr | IndexError pystr | StopIteration | Failure pystr

fun exc_str :: "pyexc \<Rightarrow> pystr" where
  "exc_str (TypeError m) = m"
| "exc_str (IndexError m) = m"
| "exc_str StopIteration = []"
| "exc_str (Failure m) = m"

text \<open>
  The content record is a Python dict. The keys \<^verbatim>\<open>url\<close>, \<^verbatim>\<open>type\<close> and \<^verbatim>\<open>needs_paste\<close> are in
  every dict the program builds; the other keys may be missing, or present with the
  value \<^verbatim>\<open>None\<close>, and \<^verbatim>\<open>dict.get\<close> tells the two apart.
\<close>

datatype 'a field = Missing | PyNone | Val 'a

record content_data =
  cd_url :: pystr
  cd_type :: pystr
  cd_content :: "pystr field"
  cd_needs_paste :: bool
  cd_title :: "pystr field"
  cd_authors :: "pystr list field"
  cd_abstract :: "pystr field"

text \<open>\<^verbatim>\<open>d.get(key, default)\<close>: the default only when the key is missing; \<open>None\<close> is Python's \<^verbatim>\<open>None\<close>.\<close>

fun dict_get :: "'a field \<Rightarrow> 'a \<Rightarrow> 'a option" where
  "dict_get Missing d = Some d"
| "dict_get PyNone d = None"
| "dict_get (Val v) d = Some v"

text \<open>A string or \<^verbatim>\<open>None\<close> interpolated into an f-string.\<close>

fun format_value :: "pystr option \<Rightarrow> pystr" where
  "format_value None = str ''None''"
| "format_value (Some s) = s"

text \<open>The result of the arXiv library for one paper: title, author names, summary.\<close>

record paper =
  paper_title :: pystr
  paper_authors :: "pystr list"
  paper_summary :: pystr

text \<open>The response of \<^verbatim>\<open>requests.get\<close>.\<close>

record response =
  resp_status_code :: nat
  resp_text :: pystr

text \<open>
  The external services, as functions of their argument:
  \<^item> \<open>requests_get\<close>: \<^verbatim>\<open>requests.get(url, headers=headers, timeout=10)\<close>, a response or an error;
  \<^item> \<open>raise_for_status\<close>: \<^verbatim>\<open>response.raise_for_status()\<close>, which raises on an error status;
  \<^item> \<open>arxiv_results\<close>: the papers that \<^verbatim>\<open>arxiv.Client().results(arxiv.Search(id_list=[paper_id]))\<close>
    yields, or the error it raises;
  \<^item> \<open>messages_create\<close>: \<^verbatim>\<open>client.beta.messages.create\<close> on a prompt, the texts of the content
    blocks of the response, or an error.
\<close>

record env =
  requests_get :: "pystr \<Rightarrow> pyexc + response"
  raise_for_status :: "response \<Rightarrow> pyexc + unit"
  arxiv_results :: "pystr \<Rightarrow> pyexc + paper list"
  messages_create :: "pystr \<Rightarrow> pyexc + pystr list"

text \<open>What a run does besides returning: the calls to the services and the lines printed.\<close>

datatype event = Print pystr | HttpGet pystr | ArxivSearch pystr | MessagesCreate pystr

section \<open>fetch_arxiv\<close>

text \<open>The paper identifier that \<^verbatim>\<open>fetch_arxiv\<close> computes from the URL (its local \<^verbatim>\<open>paper_id\<close>).\<close>

definition paper_id :: "pystr \<Rightarrow> pystr" where
  "paper_id u =
     (if contains (str ''abs/'') u then
        hd (split_py (last (split_py u (str ''abs/''))) (str ''v''))
      else if contains (str ''pdf/'') u then
        hd (split_py (replace_py (last (split_py u (str ''pdf/''))) (str ''.pdf'') [])
              (str ''v''))
      else
        hd (split_py (last (split_py u (str ''/''))) (str ''v'')))"

text \<open>\<^verbatim>\<open>next(...)\<close> on the results: the first paper, StopIteration when there is none.\<close>

fun next_result :: "pyexc + paper list \<Rightarrow> pyexc + paper" where
  "next_result (Inl e) = Inl e"
| "next_result (Inr []) = Inl StopIteration"
| "next_result (Inr (p # ps)) = Inr p"

definition fetch_arxiv :: "env \<Rightarrow> pystr \<Rightarrow> content_data \<times> event list" where
  "fetch_arxiv env u =
     (case next_result (arxiv_results env (paper_id u)) of
        Inr p \<Rightarrow>
          (\<lparr>cd_url = u, cd_type = str ''arxiv'', cd_content = Missing, cd_needs_paste = False,
            cd_title = Val (paper_title p), cd_authors = Val (paper_authors p),
            cd_abstract = Val (paper_summary p)\<rparr>,
           [ArxivSearch (paper_id u)])
      | Inl e \<Rightarrow>
          (\<lparr>cd_url = u, cd_type = str ''arxiv'', cd_content = PyNone, cd_needs_paste = True,
            cd_title = Missing, cd_authors = Missing, cd_abstract = Missing\<rparr>,
           [ArxivSearch (paper_id u), Print (str ''Error fetching ArXiv paper: '' @ exc_str e)]))"

section \<open>fetch_content\<close>

text \<open>The body of the \<^verbatim>\<open>try\<close> block of the last branch: the dict it returns, or the exception.\<close>

definition fetch_html :: "env \<Rightarrow> pystr \<Rightarrow> pyexc + content_data" where
  "fetch_html env u =
     (case requests_get env u of
        Inl e \<Rightarrow> Inl e
      | Inr r \<Rightarrow>
          (case raise_for_status env r of
             Inl e \<Rightarrow> Inl e
           | Inr _ \<Rightarrow>
               Inr \<lparr>cd_url = u, cd_type = str ''article'', cd_content = Val (take 50000 (resp_text r)),
                    cd_needs_paste = False, cd_title = Missing, cd_authors = Missing,
                    cd_abstract = Missing\<rparr>))"

definition fetch_content :: "env \<Rightarrow> pystr \<Rightarrow> content_data \<times> event list" where
  "fetch_content env u =
     (if contains (str ''arxiv.org'') u then fetch_arxiv env u
      else if contains (str ''twitter.com'') u \<or> contains (str ''x.com'') u then
        (\<lparr>cd_url = u, cd_type = str ''tweet'', cd_content = PyNone, cd_needs_paste = True,
          cd_title = Missing, cd_authors = Missing, cd_abstract = Missing\<rparr>, [])
      else
        (case fetch_html env u of
           Inr d \<Rightarrow> (d, [HttpGet u])
         | Inl e \<Rightarrow>
             (\<lparr>cd_url = u, cd_type = str ''unknown'', cd_content = PyNone, cd_needs_paste = True,
               cd_title = Missing, cd_authors = Missing, cd_abstract = Missing\<rparr>,
              [HttpGet u, Print (str ''Could not fetch URL directly: '' @ exc_str e)])))"

section \<open>create_analysis_prompt\<close>

text \<open>A triple-quoted literal, line by line: every line ends with a newline (code point 10).\<close>

definition unlines :: "pystr list \<Rightarrow> pystr" where
  "unlines ls = concat (map (\<lambda>l. l @ [10]) ls)"

definition base_prompt_lines :: "pystr list" where
  "base_prompt_lines =
     [
      str ''You are an expert at quickly understanding and explaining technical content.'',
      str ''Your task is to decompress this content into a clear, actionable summary.'',
      [],
      str ''Provide your analysis in this EXACT format:'',
      [],
      str ''## '' @ [0x1F4DD] @ str '' ONE-LINER'',
      str ''[What is this in one clear sentence?]'',
      [],
      str ''## '' @ [0x1F680] @ str '' KEY INNOVATION'',
      str ''[What's new or important here? 1-2 sentences]'',
      [],
      str ''## '' @ [0x1F4A1] @ str '' WHY IT MATTERS'',
      str ''[Why should someone care? Impact and relevance. 2-3 sentences]'',
      [],
      str ''## '' @ [0x1F50D] @ str '' MAIN INSIGHTS'',
      [0x2022] @ str '' [Key point 1]'',
      [0x2022] @ str '' [Key point 2]'',
      [0x2022] @ str '' [Key point 3]'',
      [0x2022] @ str '' [Add more if needed, up to 5 total]'',
      [],
      str ''## '' @ [0x2699] @ [0xFE0F] @ str '' HOW IT WORKS'',
      str ''[Brief explanation of the methodology or approach. 2-3 sentences. Skip if not applicable]'',
      [],
      str ''## '' @ [0x1F4CA] @ str '' KEY RESULTS'',
      str ''[What did they achieve? Include specific metrics if mentioned. 2-3 sentences]'',
      [],
      str ''## '' @ [0x26A0] @ [0xFE0F] @ str '' LIMITATIONS'',
      str ''[What are the caveats, limitations, or things to watch out for? 1-2 sentences]'',
      [],
      str ''## '' @ [0x1F517] @ str '' CONNECTIONS'',
      str ''[How does this relate to other work or trends? 1-2 sentences]'',
      [],
      str ''## '' @ [0x1F3AF] @ str '' WHO SHOULD READ THIS'',
      str ''[Specific audience who would benefit most. 1 sentence]'',
      [],
      str ''## '' @ [0x1F4CC] @ str '' TLDR'',
      str ''[2-3 sentence summary for someone with 30 seconds]'',
      [],
      str ''## '' @ [0x1F914] @ str '' SHOULD YOU READ THE FULL VERSION?'',
      str ''[Yes/No and specific reason why. 1 sentence]'',
      [],
      str ''---'',
      [],
      str ''Now analyze this content:'',
      []
     ]"

definition base_prompt :: pystr where
  "base_prompt = unlines base_prompt_lines"

text \<open>
  The f-string of each branch. \<^verbatim>\<open>', '.join(None)\<close> and \<^verbatim>\<open>None[:10000]\<close> raise TypeError; a
  value \<^verbatim>\<open>None\<close> that is only interpolated prints as \<^verbatim>\<open>None\<close>.
\<close>

definition content_str :: "content_data \<Rightarrow> pyexc + pystr" where
  "content_str content_data =
     (if cd_type content_data = str ''arxiv'' then
        (case dict_get (cd_authors content_data) [] of
           None \<Rightarrow> Inl (TypeError (str ''can only join an iterable''))
         | Some names \<Rightarrow>
             Inr (str ''\<newline>PAPER: ''
                  @ format_value (dict_get (cd_title content_data) (str ''Unknown''))
                  @ str ''\<newline>AUTHORS: '' @ join_py (str '', '') names
                  @ str ''\<newline>URL: '' @ cd_url content_data
                  @ str ''\<newline>\<newline>ABSTRACT:\<newline>''
                  @ format_value (dict_get (cd_abstract content_data) (str ''Not available''))
                  @ str ''\<newline>''))
      else if cd_type content_data = str ''tweet'' then
        Inr (str ''\<newline>TWEET/THREAD from '' @ cd_url content_data @ str '':\<newline>''
             @ format_value (dict_get (cd_content content_data) (str ''Content not provided''))
             @ str ''\<newline>'')
      else
        (case dict_get (cd_content content_data) (str ''Content not provided'') of
           None \<Rightarrow> Inl (TypeError ([39] @ str ''NoneType'' @ [39] @ str '' object is not subscriptable''))
         | Some c \<Rightarrow>
             Inr (str ''\<newline>URL: '' @ cd_url content_data @ str ''\<newline>CONTENT:\<newline>''
                  @ take 10000 c @ str ''  # Limit for token management\<newline>'')))"

definition create_analysis_prompt :: "content_data \<Rightarrow> pyexc + pystr" where
  "create_analysis_prompt content_data =
     (case content_str content_data of
        Inl e \<Rightarrow> Inl e
      | Inr c \<Rightarrow> Inr (base_prompt @ c))"

section \<open>analyze\<close>

text \<open>Truth value of the optional argument \<^verbatim>\<open>pasted_content\<close>: \<^verbatim>\<open>None\<close> and the empty string are false.\<close>

fun truthy :: "pystr option \<Rightarrow> bool" where
  "truthy None = False"
| "truthy (Some s) = (s \<noteq> [])"

fun as_field :: "'a option \<Rightarrow> 'a field" where
  "as_field None = PyNone"
| "as_field (Some v) = Val v"

text \<open>The \<^verbatim>\<open>try\<close> block around the call of the model: \<^verbatim>\<open>response.content[0].text\<close>, or the error text.\<close>

definition call_claude :: "env \<Rightarrow> pystr \<Rightarrow> pystr" where
  "call_claude env prompt =
     (case messages_create env prompt of
        Inl e \<Rightarrow> [0x274C] @ str '' Error calling Claude API: '' @ exc_str e
      | Inr [] \<Rightarrow>
          [0x274C] @ str '' Error calling Claude API: ''
          @ exc_str (IndexError (str ''list index out of range''))
      | Inr (b # bs) \<Rightarrow> b)"

definition paste_request :: pystr where
  "paste_request =
     [0x26A0, 0xFE0F] @ str ''  This URL requires manual content paste. Please provide the content.''"

text \<open>
  A run of \<^verbatim>\<open>analyze\<close>: what it returns (or the exception that leaves it), its local
  \<^verbatim>\<open>content_data\<close> at the end, and the events in order.
\<close>

record analysis =
  an_result :: "pyexc + pystr"
  an_data :: content_data
  an_events :: "event list"

definition prompt_and_call :: "env \<Rightarrow> content_data \<Rightarrow> event list \<Rightarrow> analysis" where
  "prompt_and_call env content_data evs =
     (case create_analysis_prompt content_data of
        Inl e \<Rightarrow> \<lparr>an_result = Inl e, an_data = content_data, an_events = evs\<rparr>
      | Inr prompt \<Rightarrow>
          \<lparr>an_result = Inr (call_claude env prompt), an_data = content_data,
           an_events = evs @ [Print ([0x1F916] @ str '' Analyzing with Claude...''),
                              MessagesCreate prompt]\<rparr>)"

definition analyze :: "env \<Rightarrow> pystr \<Rightarrow> pystr option \<Rightarrow> analysis" where
  "analyze env u pasted_content =
     (let (content_data, fetched) = fetch_content env u;
          evs = Print ([0x1F4E5] @ str '' Fetching content from: '' @ u) # fetched
      in if cd_needs_paste content_data \<and> truthy pasted_content then
           prompt_and_call env (content_data\<lparr>cd_content := as_field pasted_content\<rparr>) evs
         else if cd_needs_paste content_data \<and> \<not> truthy pasted_content then
           \<lparr>an_result = Inr paste_request, an_data = content_data, an_events = evs\<rparr>
         else prompt_and_call env content_data evs)"

section \<open>Notions used by the properties\<close>

text \<open>
  \<^verbatim>\<open>create_analysis_prompt\<close> statement by statement, as a computation on the dict it is
  given: the state is the dict, which a Python callee can change under its caller.
  \<open>getitem\<close> is a read, \<^verbatim>\<open>content_data[key]\<close> or the lookup of \<^verbatim>\<open>content_data.get(key, default)\<close>;
  \<open>setitem_content\<close> is the assignment \<^verbatim>\<open>content_data['content'] = v\<close>, which \<^verbatim>\<open>analyze\<close> performs
  and the formatter does not.
\<close>

definition getitem :: "(content_data \<Rightarrow> 'a) \<Rightarrow> (content_data, 'a) state" where
  "getitem key = State (\<lambda>d. (key d, d))"

definition setitem_content :: "pystr field \<Rightarrow> (content_data, unit) state" where
  "setitem_content v = State (\<lambda>d. ((), d\<lparr>cd_content := v\<rparr>))"

definition create_analysis_prompt_st :: "(content_data, pyexc + pystr) state" where
  "create_analysis_prompt_st = do {
     ty \<leftarrow> getitem cd_type;
     if ty = str ''arxiv'' then do {
       title \<leftarrow> getitem cd_title;
       authors \<leftarrow> getitem cd_authors;
       (case dict_get authors [] of
          None \<Rightarrow> State_Monad.return (Inl (TypeError (str ''can only join an iterable'')))
        | Some names \<Rightarrow> do {
            u \<leftarrow> getitem cd_url;
            abstract \<leftarrow> getitem cd_abstract;
            State_Monad.return
              (Inr (base_prompt @ str ''\<newline>PAPER: ''
                    @ format_value (dict_get title (str ''Unknown''))
                    @ str ''\<newline>AUTHORS: '' @ join_py (str '', '') names
                    @ str ''\<newline>URL: '' @ u
                    @ str ''\<newline>\<newline>ABSTRACT:\<newline>''
                    @ format_value (dict_get abstract (str ''Not available''))
                    @ str ''\<newline>''))
          })
     } else do {
       ty \<leftarrow> getitem cd_type;
       if ty = str ''tweet'' then do {
         u \<leftarrow> getitem cd_url;
         c \<leftarrow> getitem cd_content;
         State_Monad.return
           (Inr (base_prompt @ str ''\<newline>TWEET/THREAD from '' @ u @ str '':\<newline>''
                 @ format_value (dict_get c (str ''Content not provided''))
                 @ str ''\<newline>''))
       } else do {
         u \<leftarrow> getitem cd_url;
         c \<leftarrow> getitem cd_content;
         State_Monad.return
           (case dict_get c (str ''Content not provided'') of
              None \<Rightarrow>
                Inl (TypeError ([39] @ str ''NoneType'' @ [39] @ str '' object is not subscriptable''))
            | Some s \<Rightarrow>
                Inr (base_prompt @ str ''\<newline>URL: '' @ u @ str ''\<newline>CONTENT:\<newline>''
                     @ take 10000 s @ str ''  # Limit for token management\<newline>''))
       }
     }
   }"

text \<open>Two calls of the formatter on the same dict, one after the other.\<close>

definition format_twice :: "(content_data, (pyexc + pystr) \<times> (pyexc + pystr)) state" where
  "format_twice = do {
     p1 \<leftarrow> create_analysis_prompt_st;
     p2 \<leftarrow> create_analysis_prompt_st;
     State_Monad.return (p1, p2)
   }"

text \<open>For contrast, two calls with the assignment of \<^verbatim>\<open>analyze\<close> between them.\<close>

definition format_paste_format ::
    "pystr \<Rightarrow> (content_data, (pyexc + pystr) \<times> (pyexc + pystr)) state" where
  "format_paste_format s = do {
     p1 \<leftarrow> create_analysis_prompt_st;
     _ \<leftarrow> setitem_content (Val s);
     p2 \<leftarrow> create_analysis_prompt_st;
     State_Monad.return (p1, p2)
   }"

text \<open>The section headers of a prompt: its lines that start with \<^verbatim>\<open>## \<close>.\<close>

definition header_lines :: "pystr \<Rightarrow> pystr list" where
  "header_lines p = filter (\<lambda>l. startswith l (str ''## '')) (split_py p [10])"

text \<open>
  The body text of a record: the abstract for a paper record, the content otherwise. It
  is absent when the key is missing or holds \<^verbatim>\<open>None\<close>.
\<close>

fun is_val :: "'a field \<Rightarrow> bool" where
  "is_val (Val v) = True"
| "is_val Missing = False"
| "is_val PyNone = False"

definition body_text :: "content_data \<Rightarrow> pystr field" where
  "body_text d = (if cd_type d = str ''arxiv'' then cd_abstract d else cd_content d)"

definition body_absent :: "content_data \<Rightarrow> bool" where
  "body_absent d = (\<not> is_val (body_text d))"

text \<open>
  The identifier as the specification words it: what follows the path prefix
  \<^verbatim>\<open>abs/\<close> or \<^verbatim>\<open>pdf/\<close> (the last path segment when there is neither), without a trailing
  \<^verbatim>\<open>.pdf\<close> in the pdf branch, and without a trailing version suffix, a \<^verbatim>\<open>v\<close> followed by digits.
\<close>

definition is_digit :: "nat \<Rightarrow> bool" where
  "is_digit c = (48 \<le> c \<and> c \<le> 57)"

definition strip_version_suffix :: "pystr \<Rightarrow> pystr" where
  "strip_version_suffix s =
     (case dropWhile is_digit (rev s) of
        [] \<Rightarrow> s
      | c # r \<Rightarrow> if c = 118 \<and> takeWhile is_digit (rev s) \<noteq> [] then rev r else s)"

definition strip_pdf_extension :: "pystr \<Rightarrow> pystr" where
  "strip_pdf_extension s =
     (if startswith (rev s) (rev (str ''.pdf'')) then take (length s - 4) s else s)"

definition spec_paper_id :: "pystr \<Rightarrow> pystr" where
  "spec_paper_id u =
     (if contains (str ''abs/'') u then
        strip_version_suffix (last (split_py u (str ''abs/'')))
      else if contains (str ''pdf/'') u then
        strip_version_suffix (strip_pdf_extension (last (split_py u (str ''pdf/''))))
      else
        strip_version_suffix (last (split_py u (str ''/''))))"

text \<open>
  Concrete settings of the services: one where every call fails, one where all answer, one
  where the page is not found and nothing is returned, one where only the arXiv lookup fails.
\<close>

definition offline_env :: env where
  "offline_env =
     \<lparr>requests_get = (\<lambda>u. Inl (Failure (str ''connection timed out''))),
      raise_for_status = (\<lambda>r. Inr ()),
      arxiv_results = (\<lambda>i. Inl (Failure (str ''service unreachable''))),
      messages_create = (\<lambda>p. Inl (Failure (str ''authentication error'')))\<rparr>"

definition example_paper :: paper where
  "example_paper =
     \<lparr>paper_title = str ''Example Paper'',
      paper_authors = [str ''A. One'', str ''B. Two''],
      paper_summary = str ''This paper...''\<rparr>"

definition example_env :: env where
  "example_env =
     \<lparr>requests_get = (\<lambda>u. Inr \<lparr>resp_status_code = 200, resp_text = replicate 60000 97\<rparr>),
      raise_for_status =
        (\<lambda>r. if 400 \<le> resp_status_code r \<and> resp_status_code r < 600
              then Inl (Failure (str ''HTTP error status'')) else Inr ()),
      arxiv_results = (\<lambda>i. if i = str ''2301.00001'' then Inr [example_paper] else Inr []),
      messages_create = (\<lambda>p. Inr [str ''analysis''])\<rparr>"

definition not_found_env :: env where
  "not_found_env =
     \<lparr>requests_get = (\<lambda>u. Inr \<lparr>resp_status_code = 404, resp_text = str ''Not Found''\<rparr>),
      raise_for_status =
        (\<lambda>r. if 400 \<le> resp_status_code r \<and> resp_status_code r < 600
              then Inl (Failure (str ''HTTP error status'')) else Inr ()),
      arxiv_results = (\<lambda>i. Inr []),
      messages_create = (\<lambda>p. Inr [])\<rparr>"

definition lookup_failure_env :: env where
  "lookup_failure_env =
     \<lparr>requests_get = (\<lambda>u. Inr \<lparr>resp_status_code = 200, resp_text = str ''page''\<rparr>),
      raise_for_status = (\<lambda>r. Inr ()),
      arxiv_results = (\<lambda>i. Inl (Failure (str ''HTTP 503''))),
      messages_create = (\<lambda>p. Inr [str ''analysis''])\<rparr>"

section \<open>Facts about the string operations\<close>

lemma startswith_iff: "startswith s p \<longleftrightarrow> (\<exists>r. s = p @ r)"
  by (induction s p rule: startswith.induct) auto

lemma contains_iff: "contains sub s \<longleftrightarrow> (\<exists>p q. s = p @ sub @ q)"
proof (induction s)
  case Nil
  then show ?case by auto
next
  case (Cons c cs)
  show ?case
  proof
    assume "contains sub (c # cs)"
    then consider "startswith (c # cs) sub" | "contains sub cs" by auto
    then show "\<exists>p q. c # cs = p @ sub @ q"
    proof cases
      case 1
      then obtain r where "c # cs = sub @ r" by (auto simp: startswith_iff)
      then have "c # cs = [] @ sub @ r" by simp
      then show ?thesis by blast
    next
      case 2
      then obtain p q where "cs = p @ sub @ q" using Cons.IH by blast
      then have "c # cs = (c # p) @ sub @ q" by simp
      then show ?thesis by blast
    qed
  next
    assume "\<exists>p q. c # cs = p @ sub @ q"
    then obtain p q where pq: "c # cs = p @ sub @ q" by blast
    show "contains sub (c # cs)"
    proof (cases p)
      case Nil
      with pq have "startswith (c # cs) sub" by (auto simp: startswith_iff)
      then show ?thesis by simp
    next
      case (Cons a p')
      with pq have "cs = p' @ sub @ q" by simp
      then have "contains sub cs" using Cons.IH by blast
      then show ?thesis by simp
    qed
  qed
qed

lemma contains_middle: "contains sub (p @ sub @ q)"
  by (auto simp: contains_iff)

lemma split_acc_nonempty: "split_acc sep acc s \<noteq> []"
  by (induction sep acc s rule: split_acc.induct) auto

lemma type_names_distinct:
  "str ''arxiv'' \<noteq> str ''tweet''" "str ''arxiv'' \<noteq> str ''article''"
  "str ''arxiv'' \<noteq> str ''unknown''" "str ''tweet'' \<noteq> str ''article''"
  "str ''tweet'' \<noteq> str ''unknown''" "str ''article'' \<noteq> str ''unknown''"
  "str ''tweet'' \<noteq> str ''arxiv''" "str ''article'' \<noteq> str ''arxiv''"
  "str ''unknown'' \<noteq> str ''arxiv''" "str ''article'' \<noteq> str ''tweet''"
  "str ''unknown'' \<noteq> str ''tweet''" "str ''unknown'' \<noteq> str ''article''"
  by (simp_all add: str_def)

lemma fetch_arxiv_type: "cd_type (fst (fetch_arxiv env u)) = str ''arxiv''"
  by (simp add: fetch_arxiv_def split: sum.splits)

lemma fetch_arxiv_url: "cd_url (fst (fetch_arxiv env u)) = u"
  by (simp add: fetch_arxiv_def split: sum.splits)

lemma fetch_content_no_completion: "MessagesCreate p \<notin> set (snd (fetch_content env u))"
  by (simp add: fetch_content_def fetch_arxiv_def split: sum.splits)

section \<open>Classification of the URL\<close>

text \<open>
  C1. \<^verbatim>\<open>fetch_content\<close> decides by case-sensitive substring tests, the first match winning.
  A URL with \<^verbatim>\<open>arxiv.org\<close> anywhere in it gives a record of type \<^verbatim>\<open>arxiv\<close>, whatever else the URL
  holds. Otherwise a URL with \<^verbatim>\<open>twitter.com\<close> or \<^verbatim>\<open>x.com\<close> gives the record of type \<^verbatim>\<open>tweet\<close> with
  \<^verbatim>\<open>needs_paste\<close> true and content \<^verbatim>\<open>None\<close>, and the run makes no call at all, so no HTTP fetch.
\<close>

theorem fetch_content_classification:
  "cd_type (fst (fetch_content env (p @ str ''arxiv.org'' @ q))) = str ''arxiv'' \<and>
   (contains (str ''arxiv.org'') u \<longrightarrow> cd_type (fst (fetch_content env u)) = str ''arxiv'') \<and>
   (\<not> contains (str ''arxiv.org'') u \<and>
      (contains (str ''twitter.com'') u \<or> contains (str ''x.com'') u) \<longrightarrow>
      fetch_content env u =
        (\<lparr>cd_url = u, cd_type = str ''tweet'', cd_content = PyNone, cd_needs_paste = True,
          cd_title = Missing, cd_authors = Missing, cd_abstract = Missing\<rparr>, []) \<and>
      (\<forall>v. HttpGet v \<notin> set (snd (fetch_content env u))))"
  by (simp add: fetch_content_def fetch_arxiv_type contains_middle)

theorem fetch_content_classification_witness:
  "contains (str ''arxiv.org'') (str ''https://arxiv.org/abs/2301.00001?via=twitter.com'') \<and>
   cd_type (fst (fetch_content offline_env (str ''https://arxiv.org/abs/2301.00001?via=twitter.com'')))
     = str ''arxiv'' \<and>
   \<not> contains (str ''arxiv.org'') (str ''https://x.com/user/status/1'') \<and>
   contains (str ''x.com'') (str ''https://x.com/user/status/1'') \<and>
   cd_needs_paste (fst (fetch_content example_env (str ''https://x.com/user/status/1''))) \<and>
   cd_content (fst (fetch_content example_env (str ''https://x.com/user/status/1''))) = PyNone \<and>
   snd (fetch_content example_env (str ''https://x.com/user/status/1'')) = []"
proof -
  have a: "contains (str ''arxiv.org'') (str ''https://arxiv.org/abs/2301.00001?via=twitter.com'')"
    by (simp add: str_def)
  have b: "\<not> contains (str ''arxiv.org'') (str ''https://x.com/user/status/1'')"
    by (simp add: str_def)
  have c: "contains (str ''x.com'') (str ''https://x.com/user/status/1'')"
    by (simp add: str_def)
  show ?thesis
    using a b c
      fetch_content_classification [of offline_env "[]" "[]"
        "str ''https://arxiv.org/abs/2301.00001?via=twitter.com''"]
      fetch_content_classification [of example_env "[]" "[]" "str ''https://x.com/user/status/1''"]
    by simp
qed

lemma classification_is_case_sensitive:
  "cd_type (fst (fetch_content offline_env (str ''https://ARXIV.ORG/abs/2301.00001''))) = str ''unknown''"
  by (simp add: fetch_content_def fetch_html_def offline_env_def str_def)

section \<open>The paper identifier\<close>

text \<open>The three identifiers listed by the specification come out as it says.\<close>

lemma paper_id_examples:
  "paper_id (str ''https://arxiv.org/abs/1234.5678v2'') = str ''1234.5678''"
  "paper_id (str ''https://arxiv.org/pdf/1234.5678v1.pdf'') = str ''1234.5678''"
  "paper_id (str ''https://arxiv.org/1234.5678'') = str ''1234.5678''"
  by (simp_all add: paper_id_def split_py_def str_def)

lemma spec_paper_id_examples:
  "spec_paper_id (str ''https://arxiv.org/abs/1234.5678v2'') = str ''1234.5678''"
  "spec_paper_id (str ''https://arxiv.org/pdf/1234.5678v1.pdf'') = str ''1234.5678''"
  "spec_paper_id (str ''https://arxiv.org/1234.5678'') = str ''1234.5678''"
  by (simp_all add: spec_paper_id_def strip_version_suffix_def strip_pdf_extension_def
      is_digit_def split_py_def str_def)

text \<open>
  C2. The identifier passed to the arXiv lookup should be what follows \<^verbatim>\<open>abs/\<close> without its
  trailing version suffix. \<^verbatim>\<open>fetch_arxiv\<close> cuts at the first \<^verbatim>\<open>v\<close> instead of stripping a trailing
  \<^verbatim>\<open>v\<close> with digits: for the paper \<^verbatim>\<open>solv-int/9901001v2\<close> it looks up \<^verbatim>\<open>sol\<close>, where the identifier
  as specified is \<^verbatim>\<open>solv-int/9901001\<close>.
\<close>

theorem paper_id_cuts_at_first_v:
  "paper_id (str ''https://arxiv.org/abs/solv-int/9901001v2'') = str ''sol'' \<and>
   spec_paper_id (str ''https://arxiv.org/abs/solv-int/9901001v2'') = str ''solv-int/9901001'' \<and>
   hd (snd (fetch_content offline_env (str ''https://arxiv.org/abs/solv-int/9901001v2'')))
     = ArxivSearch (str ''sol'')"
proof -
  have a: "paper_id (str ''https://arxiv.org/abs/solv-int/9901001v2'') = str ''sol''"
    by (simp add: paper_id_def split_py_def str_def)
  have b: "spec_paper_id (str ''https://arxiv.org/abs/solv-int/9901001v2'') = str ''solv-int/9901001''"
    by (simp add: spec_paper_id_def strip_version_suffix_def is_digit_def split_py_def str_def)
  have c: "contains (str ''arxiv.org'') (str ''https://arxiv.org/abs/solv-int/9901001v2'')"
    by (simp add: str_def)
  have "hd (snd (fetch_content offline_env (str ''https://arxiv.org/abs/solv-int/9901001v2'')))
     = ArxivSearch (paper_id (str ''https://arxiv.org/abs/solv-int/9901001v2''))"
    using c by (simp add: fetch_content_def fetch_arxiv_def split: sum.splits)
  with a b show ?thesis by simp
qed

section \<open>Failures of the services\<close>

text \<open>
  C3 says that after a failed fetch of a generic document the category of the record
  remains that of a generic document, which \<^verbatim>\<open>fetch_content\<close> writes as the type
  \<^verbatim>\<open>article\<close>. With every service failing, the record for \<^verbatim>\<open>http://example.com/page\<close> has the
  type \<^verbatim>\<open>unknown\<close>; the type \<^verbatim>\<open>article\<close> is given on success only.
\<close>

theorem failed_fetch_type_counterexample:
  "cd_type (fst (fetch_content offline_env (str ''http://example.com/page''))) = str ''unknown'' \<and>
   cd_type (fst (fetch_content offline_env (str ''http://example.com/page''))) \<noteq> str ''article'' \<and>
   cd_type (fst (fetch_content example_env (str ''http://example.com/page''))) = str ''article''"
  by (simp add: fetch_content_def fetch_html_def offline_env_def example_env_def)
     (simp add: str_def)

text \<open>
  C3, amended. \<^verbatim>\<open>fetch_content\<close> always returns a record. When the HTTP fetch of a
  generic URL fails (\<^verbatim>\<open>requests.get\<close> raises, or \<^verbatim>\<open>raise_for_status\<close> raises on the response), the
  record has type \<^verbatim>\<open>unknown\<close>, content \<^verbatim>\<open>None\<close> and \<^verbatim>\<open>needs_paste\<close> true. When the arXiv lookup
  fails (it raises, or yields no paper), the record has type \<^verbatim>\<open>arxiv\<close>, content \<^verbatim>\<open>None\<close>, no
  abstract, and \<^verbatim>\<open>needs_paste\<close> true. In both cases the reason of the failure is in the
  printed line only: the record is the same for every reason.
\<close>

theorem fetch_failure_fallback:
  "(\<not> contains (str ''arxiv.org'') u \<and> \<not> contains (str ''twitter.com'') u \<and>
      \<not> contains (str ''x.com'') u \<and>
      (requests_get env u = Inl e \<or>
       (\<exists>r. requests_get env u = Inr r \<and> raise_for_status env r = Inl e)) \<longrightarrow>
      fetch_content env u =
        (\<lparr>cd_url = u, cd_type = str ''unknown'', cd_content = PyNone, cd_needs_paste = True,
          cd_title = Missing, cd_authors = Missing, cd_abstract = Missing\<rparr>,
         [HttpGet u, Print (str ''Could not fetch URL directly: '' @ exc_str e)])) \<and>
   (contains (str ''arxiv.org'') u \<and>
      (arxiv_results env (paper_id u) = Inl e \<or>
       (arxiv_results env (paper_id u) = Inr [] \<and> e = StopIteration)) \<longrightarrow>
      fetch_content env u =
        (\<lparr>cd_url = u, cd_type = str ''arxiv'', cd_content = PyNone, cd_needs_paste = True,
          cd_title = Missing, cd_authors = Missing, cd_abstract = Missing\<rparr>,
         [ArxivSearch (paper_id u), Print (str ''Error fetching ArXiv paper: '' @ exc_str e)]))"
  by (auto simp: fetch_content_def fetch_html_def fetch_arxiv_def)

theorem fetch_failure_fallback_witness:
  "fetch_content not_found_env (str ''http://example.com/page'') =
     (\<lparr>cd_url = str ''http://example.com/page'', cd_type = str ''unknown'', cd_content = PyNone,
       cd_needs_paste = True, cd_title = Missing, cd_authors = Missing, cd_abstract = Missing\<rparr>,
      [HttpGet (str ''http://example.com/page''),
       Print (str ''Could not fetch URL directly: '' @ str ''HTTP error status'')]) \<and>
   fetch_content not_found_env (str ''https://arxiv.org/abs/2301.00001'') =
     (\<lparr>cd_url = str ''https://arxiv.org/abs/2301.00001'', cd_type = str ''arxiv'',
       cd_content = PyNone, cd_needs_paste = True, cd_title = Missing, cd_authors = Missing,
       cd_abstract = Missing\<rparr>,
      [ArxivSearch (paper_id (str ''https://arxiv.org/abs/2301.00001'')),
       Print (str ''Error fetching ArXiv paper: '')])"
proof -
  have a: "\<not> contains (str ''arxiv.org'') (str ''http://example.com/page'')"
    "\<not> contains (str ''twitter.com'') (str ''http://example.com/page'')"
    "\<not> contains (str ''x.com'') (str ''http://example.com/page'')"
    "contains (str ''arxiv.org'') (str ''https://arxiv.org/abs/2301.00001'')"
    by (simp_all add: str_def)
  have b: "requests_get not_found_env (str ''http://example.com/page'')
             = Inr \<lparr>resp_status_code = 404, resp_text = str ''Not Found''\<rparr>"
    "raise_for_status not_found_env \<lparr>resp_status_code = 404, resp_text = str ''Not Found''\<rparr>
       = Inl (Failure (str ''HTTP error status''))"
    "arxiv_results not_found_env (paper_id (str ''https://arxiv.org/abs/2301.00001'')) = Inr []"
    by (simp_all add: not_found_env_def)
  show ?thesis
    using a b
      fetch_failure_fallback [of "str ''http://example.com/page''" not_found_env
        "Failure (str ''HTTP error status'')"]
      fetch_failure_fallback [of "str ''https://arxiv.org/abs/2301.00001''" not_found_env
        StopIteration]
    by simp
qed

section \<open>The invariant of resolution\<close>

text \<open>
  C6. For every URL and every behaviour of the services, the record that
  \<^verbatim>\<open>fetch_content\<close> returns has \<^verbatim>\<open>needs_paste\<close> true exactly when its body text (the abstract of a
  paper record, the content of any other record) is absent.
\<close>

theorem needs_paste_iff_body_absent:
  "cd_needs_paste (fst (fetch_content env u)) = body_absent (fst (fetch_content env u))"
  by (simp add: fetch_content_def fetch_arxiv_def fetch_html_def body_absent_def body_text_def
      type_names_distinct split: sum.splits)

theorem needs_paste_iff_body_absent_witness:
  "cd_needs_paste (fst (fetch_content example_env (str ''https://arxiv.org/abs/2301.00001'')))
     = body_absent (fst (fetch_content example_env (str ''https://arxiv.org/abs/2301.00001''))) \<and>
   \<not> cd_needs_paste (fst (fetch_content example_env (str ''https://arxiv.org/abs/2301.00001''))) \<and>
   cd_needs_paste (fst (fetch_content offline_env (str ''http://example.com/page''))) \<and>
   body_absent (fst (fetch_content offline_env (str ''http://example.com/page'')))"
proof -
  have a: "\<not> cd_needs_paste (fst (fetch_content example_env (str ''https://arxiv.org/abs/2301.00001'')))"
    by (simp add: fetch_content_def fetch_arxiv_def example_env_def paper_id_def split_py_def)
       (simp add: str_def)
  have b: "cd_needs_paste (fst (fetch_content offline_env (str ''http://example.com/page'')))"
    by (simp add: fetch_content_def fetch_html_def offline_env_def)
       (simp add: str_def)
  show ?thesis
    using a b needs_paste_iff_body_absent [of example_env "str ''https://arxiv.org/abs/2301.00001''"]
      needs_paste_iff_body_absent [of offline_env "str ''http://example.com/page''"]
    by simp
qed

lemma fetched_body_present:
  "\<not> cd_needs_paste (fst (fetch_content env u)) \<Longrightarrow> \<not> body_absent (fst (fetch_content env u))"
  by (simp add: fetch_content_def fetch_arxiv_def fetch_html_def body_absent_def body_text_def
      type_names_distinct split: sum.splits if_splits)

lemma fallback_paper_has_no_abstract:
  "cd_needs_paste (fst (fetch_content env u)) \<Longrightarrow>
   cd_type (fst (fetch_content env u)) = str ''arxiv'' \<Longrightarrow>
   cd_abstract (fst (fetch_content env u)) = Missing"
  by (simp add: fetch_content_def fetch_arxiv_def fetch_html_def type_names_distinct
      split: sum.splits if_splits)

lemma prompt_and_call_events:
  "MessagesCreate p \<in> set (an_events (prompt_and_call env d evs)) \<Longrightarrow>
   MessagesCreate p \<notin> set evs \<Longrightarrow>
   create_analysis_prompt d = Inr p \<and> an_data (prompt_and_call env d evs) = d"
  by (auto simp: prompt_and_call_def split: sum.splits)

section \<open>Manual input in analyze\<close>

text \<open>
  The part of C4 that holds: when the fetched record has \<^verbatim>\<open>needs_paste\<close> true and the caller
  gives no text, \<^verbatim>\<open>analyze\<close> returns the request for a manual paste and never calls the model.
\<close>

lemma analyze_without_text_no_call:
  "cd_needs_paste (fst (fetch_content env u)) \<Longrightarrow>
     an_result (analyze env u None) = Inr paste_request \<and>
     (\<forall>p. MessagesCreate p \<notin> set (an_events (analyze env u None)))"
  using fetch_content_no_completion [of _ env u]
  by (cases "fetch_content env u") (simp add: analyze_def Let_def)

text \<open>
  Whenever the model is called, the prompt sent is the prompt of the record at that point,
  and the body text of that record is absent in exactly one case: a paper record whose
  lookup failed, to which the pasted text was added under the key \<^verbatim>\<open>content\<close>.
\<close>

lemma analyze_call_record:
  assumes m: "MessagesCreate p \<in> set (an_events (analyze env u pasted_content))"
  shows "create_analysis_prompt (an_data (analyze env u pasted_content)) = Inr p \<and>
     (body_absent (an_data (analyze env u pasted_content)) \<longleftrightarrow>
        cd_type (fst (fetch_content env u)) = str ''arxiv'' \<and>
        cd_needs_paste (fst (fetch_content env u)))"
proof -
  obtain d fetched where f: "fetch_content env u = (d, fetched)"
    by (cases "fetch_content env u")
  define evs where "evs = Print ([0x1F4E5] @ str '' Fetching content from: '' @ u) # fetched"
  have nf: "MessagesCreate p \<notin> set evs"
    using fetch_content_no_completion [of p env u] f by (simp add: evs_def)
  consider (paste) "cd_needs_paste d" "truthy pasted_content"
    | (reject) "cd_needs_paste d" "\<not> truthy pasted_content"
    | (plain) "\<not> cd_needs_paste d"
    by blast
  then show ?thesis
  proof cases
    case paste
    then have a: "analyze env u pasted_content
        = prompt_and_call env (d\<lparr>cd_content := as_field pasted_content\<rparr>) evs"
      using f by (simp add: analyze_def Let_def evs_def)
    from paste obtain s where s: "pasted_content = Some s" by (cases pasted_content) auto
    have "cd_type d = str ''arxiv'' \<Longrightarrow> cd_abstract d = Missing"
      using fallback_paper_has_no_abstract [of env u] paste f by simp
    then have "body_absent (d\<lparr>cd_content := as_field pasted_content\<rparr>) \<longleftrightarrow> cd_type d = str ''arxiv''"
      using s by (auto simp: body_absent_def body_text_def)
    with a m nf prompt_and_call_events [of p env "d\<lparr>cd_content := as_field pasted_content\<rparr>" evs]
      paste f
    show ?thesis by simp
  next
    case reject
    then have "an_events (analyze env u pasted_content) = evs"
      using f by (simp add: analyze_def Let_def evs_def)
    with m nf show ?thesis by simp
  next
    case plain
    then have a: "analyze env u pasted_content = prompt_and_call env d evs"
      using f by (simp add: analyze_def Let_def evs_def)
    have "\<not> body_absent d"
      using fetched_body_present [of env u] plain f by simp
    with a m nf prompt_and_call_events [of p env d evs] plain f
    show ?thesis by simp
  qed
qed

lemma tweet_example_fetch:
  "fetch_content env (str ''https://x.com/user/status/1'') =
     (\<lparr>cd_url = str ''https://x.com/user/status/1'', cd_type = str ''tweet'', cd_content = PyNone,
       cd_needs_paste = True, cd_title = Missing, cd_authors = Missing, cd_abstract = Missing\<rparr>, [])"
proof -
  have "\<not> contains (str ''arxiv.org'') (str ''https://x.com/user/status/1'')"
    "contains (str ''x.com'') (str ''https://x.com/user/status/1'')"
    by (simp_all add: str_def)
  then show ?thesis by (simp add: fetch_content_def)
qed

lemma failed_lookup_fetch:
  "fetch_content lookup_failure_env (str ''https://arxiv.org/abs/2301.00001'') =
     (\<lparr>cd_url = str ''https://arxiv.org/abs/2301.00001'', cd_type = str ''arxiv'',
       cd_content = PyNone, cd_needs_paste = True, cd_title = Missing, cd_authors = Missing,
       cd_abstract = Missing\<rparr>,
      [ArxivSearch (str ''2301.00001''),
       Print (str ''Error fetching ArXiv paper: '' @ str ''HTTP 503'')])"
proof -
  have a: "contains (str ''arxiv.org'') (str ''https://arxiv.org/abs/2301.00001'')"
    by (simp add: str_def)
  have b: "paper_id (str ''https://arxiv.org/abs/2301.00001'') = str ''2301.00001''"
    by (simp add: paper_id_def split_py_def str_def)
  show ?thesis
    by (simp add: fetch_content_def a fetch_arxiv_def b lookup_failure_env_def)
qed

lemma paper_fallback_prompt_without_paste:
  "\<not> contains (str ''hello'')
       (base_prompt @ str ''\<newline>PAPER: Unknown\<newline>AUTHORS: \<newline>URL: https://arxiv.org/abs/2301.00001\<newline>\<newline>ABSTRACT:\<newline>Not available\<newline>'')"
  by (simp add: base_prompt_def base_prompt_lines_def unlines_def str_def)

text \<open>
  C4 says that the model is only called on a record that has body content available.
  For a paper URL whose lookup fails and the pasted text \<^verbatim>\<open>hello\<close>, \<^verbatim>\<open>analyze\<close> stores the text
  under the key \<^verbatim>\<open>content\<close>, which the paper branch of \<^verbatim>\<open>create_analysis_prompt\<close> never reads:
  the model is called with a prompt that says \<^verbatim>\<open>ABSTRACT: Not available\<close> and holds the pasted
  text nowhere, on a record whose body text, the abstract, is absent.
\<close>

theorem analyze_calls_model_without_body:
  "an_events (analyze lookup_failure_env (str ''https://arxiv.org/abs/2301.00001'') (Some (str ''hello''))) =
     [Print ([0x1F4E5] @ str '' Fetching content from: '' @ str ''https://arxiv.org/abs/2301.00001''),
      ArxivSearch (str ''2301.00001''),
      Print (str ''Error fetching ArXiv paper: '' @ str ''HTTP 503''),
      Print ([0x1F916] @ str '' Analyzing with Claude...''),
      MessagesCreate
        (base_prompt @ str ''\<newline>PAPER: Unknown\<newline>AUTHORS: \<newline>URL: https://arxiv.org/abs/2301.00001\<newline>\<newline>ABSTRACT:\<newline>Not available\<newline>'')] \<and>
   \<not> contains (str ''hello'')
       (base_prompt @ str ''\<newline>PAPER: Unknown\<newline>AUTHORS: \<newline>URL: https://arxiv.org/abs/2301.00001\<newline>\<newline>ABSTRACT:\<newline>Not available\<newline>'') \<and>
   body_absent (an_data (analyze lookup_failure_env (str ''https://arxiv.org/abs/2301.00001'')
                  (Some (str ''hello'')))) \<and>
   cd_content (an_data (analyze lookup_failure_env (str ''https://arxiv.org/abs/2301.00001'')
                  (Some (str ''hello'')))) = Val (str ''hello'') \<and>
   an_result (analyze lookup_failure_env (str ''https://arxiv.org/abs/2301.00001'')
                  (Some (str ''hello''))) = Inr (str ''analysis'')"
proof -
  have t: "truthy (Some (str ''hello''))" by (simp add: str_def)
  have mc: "\<And>q. messages_create lookup_failure_env q = Inr [str ''analysis'']"
    by (simp add: lookup_failure_env_def)
  have p: "create_analysis_prompt
      \<lparr>cd_url = str ''https://arxiv.org/abs/2301.00001'', cd_type = str ''arxiv'',
       cd_content = Val (str ''hello''), cd_needs_paste = True, cd_title = Missing,
       cd_authors = Missing, cd_abstract = Missing\<rparr>
     = Inr (base_prompt @ str ''\<newline>PAPER: Unknown\<newline>AUTHORS: \<newline>URL: https://arxiv.org/abs/2301.00001\<newline>\<newline>ABSTRACT:\<newline>Not available\<newline>'')"
    by (simp add: create_analysis_prompt_def content_str_def) (simp add: str_def)
  have a: "analyze lookup_failure_env (str ''https://arxiv.org/abs/2301.00001'') (Some (str ''hello''))
      = \<lparr>an_result = Inr (str ''analysis''),
         an_data = \<lparr>cd_url = str ''https://arxiv.org/abs/2301.00001'', cd_type = str ''arxiv'',
           cd_content = Val (str ''hello''), cd_needs_paste = True, cd_title = Missing,
           cd_authors = Missing, cd_abstract = Missing\<rparr>,
         an_events =
           [Print ([0x1F4E5] @ str '' Fetching content from: '' @ str ''https://arxiv.org/abs/2301.00001''),
            ArxivSearch (str ''2301.00001''),
            Print (str ''Error fetching ArXiv paper: '' @ str ''HTTP 503''),
            Print ([0x1F916] @ str '' Analyzing with Claude...''),
            MessagesCreate
              (base_prompt @ str ''\<newline>PAPER: Unknown\<newline>AUTHORS: \<newline>URL: https://arxiv.org/abs/2301.00001\<newline>\<newline>ABSTRACT:\<newline>Not available\<newline>'')]\<rparr>"
    using t mc
    by (simp add: analyze_def Let_def failed_lookup_fetch prompt_and_call_def p call_claude_def)
  have b: "body_absent (an_data (analyze lookup_failure_env (str ''https://arxiv.org/abs/2301.00001'')
                  (Some (str ''hello''))))"
    by (simp add: a body_absent_def body_text_def)
  from a b paper_fallback_prompt_without_paste show ?thesis by simp
qed

text \<open>
  C10. The empty string as pasted text counts as no text: when the fetched record has
  \<^verbatim>\<open>needs_paste\<close> true, \<^verbatim>\<open>analyze\<close> on the empty string runs exactly as on \<^verbatim>\<open>None\<close>, returns the
  request for a manual paste, leaves the record as fetched, and never calls the model.
\<close>

theorem analyze_empty_text_is_no_text:
  "cd_needs_paste (fst (fetch_content env u)) \<Longrightarrow>
     analyze env u (Some []) = analyze env u None \<and>
     an_result (analyze env u (Some [])) = Inr paste_request \<and>
     an_data (analyze env u (Some [])) = fst (fetch_content env u) \<and>
     (\<forall>p. MessagesCreate p \<notin> set (an_events (analyze env u (Some []))))"
  using fetch_content_no_completion [of _ env u]
  by (cases "fetch_content env u") (simp add: analyze_def Let_def)

theorem analyze_empty_text_is_no_text_witness:
  "an_result (analyze example_env (str ''https://x.com/user/status/1'') (Some [])) = Inr paste_request \<and>
   an_data (analyze example_env (str ''https://x.com/user/status/1'') (Some []))
     = fst (fetch_content example_env (str ''https://x.com/user/status/1'')) \<and>
   an_events (analyze example_env (str ''https://x.com/user/status/1'') (Some []))
     = [Print ([0x1F4E5] @ str '' Fetching content from: '' @ str ''https://x.com/user/status/1'')]"
proof -
  have a: "cd_needs_paste (fst (fetch_content example_env (str ''https://x.com/user/status/1'')))"
    by (simp add: tweet_example_fetch)
  have b: "an_events (analyze example_env (str ''https://x.com/user/status/1'') None)
     = [Print ([0x1F4E5] @ str '' Fetching content from: '' @ str ''https://x.com/user/status/1'')]"
    by (simp add: analyze_def Let_def tweet_example_fetch)
  note t = analyze_empty_text_is_no_text [OF a]
  from t have r: "an_result (analyze example_env (str ''https://x.com/user/status/1'') (Some []))
      = Inr paste_request"
    by blast
  from t have d: "an_data (analyze example_env (str ''https://x.com/user/status/1'') (Some []))
      = fst (fetch_content example_env (str ''https://x.com/user/status/1''))"
    by blast
  from t b have e: "an_events (analyze example_env (str ''https://x.com/user/status/1'') (Some []))
      = [Print ([0x1F4E5] @ str '' Fetching content from: '' @ str ''https://x.com/user/status/1'')]"
    by simp
  from r d e show ?thesis by blast
qed

section \<open>Truncation\<close>

text \<open>
  C5. A successful fetch of a generic document whose response text has \<open>n\<close> characters
  gives a record of type \<^verbatim>\<open>article\<close> whose content is the first \<open>min n 50000\<close> characters of the
  response, so exactly 50000 characters for a response of 60000; the prompt made from that
  record embeds the first 10000 characters of the content at most.
\<close>

theorem article_truncation:
  "\<not> contains (str ''arxiv.org'') u \<and> \<not> contains (str ''twitter.com'') u \<and>
   \<not> contains (str ''x.com'') u \<and>
   requests_get env u = Inr r \<and> raise_for_status env r = Inr () \<longrightarrow>
     cd_type (fst (fetch_content env u)) = str ''article'' \<and>
     cd_content (fst (fetch_content env u)) = Val (take 50000 (resp_text r)) \<and>
     length (take 50000 (resp_text r)) = min (length (resp_text r)) 50000 \<and>
     (length (resp_text r) = 60000 \<longrightarrow> length (take 50000 (resp_text r)) = 50000) \<and>
     create_analysis_prompt (fst (fetch_content env u)) =
       Inr (base_prompt @ str ''\<newline>URL: '' @ u @ str ''\<newline>CONTENT:\<newline>''
            @ take 10000 (take 50000 (resp_text r))
            @ str ''  # Limit for token management\<newline>'') \<and>
     length (take 10000 (take 50000 (resp_text r))) \<le> 10000"
  by (simp add: fetch_content_def fetch_html_def create_analysis_prompt_def content_str_def
      type_names_distinct)

theorem article_truncation_witness:
  "cd_content (fst (fetch_content example_env (str ''http://example.com/page'')))
     = Val (replicate 50000 97) \<and>
   create_analysis_prompt (fst (fetch_content example_env (str ''http://example.com/page''))) =
     Inr (base_prompt @ str ''\<newline>URL: '' @ str ''http://example.com/page''
          @ str ''\<newline>CONTENT:\<newline>'' @ replicate 10000 97
          @ str ''  # Limit for token management\<newline>'')"
proof -
  have a: "\<not> contains (str ''arxiv.org'') (str ''http://example.com/page'')"
    "\<not> contains (str ''twitter.com'') (str ''http://example.com/page'')"
    "\<not> contains (str ''x.com'') (str ''http://example.com/page'')"
    by (simp_all add: str_def)
  have b: "requests_get example_env (str ''http://example.com/page'')
      = Inr \<lparr>resp_status_code = 200, resp_text = replicate 60000 97\<rparr>"
    "raise_for_status example_env \<lparr>resp_status_code = 200, resp_text = replicate 60000 97\<rparr> = Inr ()"
    by (simp_all add: example_env_def)
  show ?thesis
    using a b
      article_truncation [of "str ''http://example.com/page''" example_env
        "\<lparr>resp_status_code = 200, resp_text = replicate 60000 97\<rparr>"]
    by simp
qed

section \<open>The prompt\<close>

lemma split_acc_line:
  "10 \<notin> set l \<Longrightarrow> split_acc [10::nat] acc (l @ 10 # rest) = (acc @ l) # split_acc [10] [] rest"
  by (induction l arbitrary: acc) auto

lemma split_py_unlines:
  "\<forall>l \<in> set ls. 10 \<notin> set l \<Longrightarrow> split_py (unlines ls) [10] = ls @ [[]]"
proof (induction ls)
  case Nil
  then show ?case by (simp add: unlines_def split_py_def)
next
  case (Cons l ls)
  then have "split_acc [10::nat] [] (l @ 10 # unlines ls) = ([] @ l) # split_acc [10] [] (unlines ls)"
    by (intro split_acc_line) simp
  with Cons show ?case by (simp add: unlines_def split_py_def)
qed

lemma base_prompt_lines_no_newline: "\<forall>l \<in> set base_prompt_lines. 10 \<notin> set l"
  by (simp add: base_prompt_lines_def str_def)

lemma base_prompt_split: "split_py base_prompt [10] = base_prompt_lines @ [[]]"
  unfolding base_prompt_def by (rule split_py_unlines [OF base_prompt_lines_no_newline])

lemma base_prompt_header_lines:
  "header_lines base_prompt =
     [str ''## '' @ [0x1F4DD] @ str '' ONE-LINER'',
      str ''## '' @ [0x1F680] @ str '' KEY INNOVATION'',
      str ''## '' @ [0x1F4A1] @ str '' WHY IT MATTERS'',
      str ''## '' @ [0x1F50D] @ str '' MAIN INSIGHTS'',
      str ''## '' @ [0x2699] @ [0xFE0F] @ str '' HOW IT WORKS'',
      str ''## '' @ [0x1F4CA] @ str '' KEY RESULTS'',
      str ''## '' @ [0x26A0] @ [0xFE0F] @ str '' LIMITATIONS'',
      str ''## '' @ [0x1F517] @ str '' CONNECTIONS'',
      str ''## '' @ [0x1F3AF] @ str '' WHO SHOULD READ THIS'',
      str ''## '' @ [0x1F4CC] @ str '' TLDR'',
      str ''## '' @ [0x1F914] @ str '' SHOULD YOU READ THE FULL VERSION?'']"
  unfolding header_lines_def base_prompt_split
  by (simp add: base_prompt_lines_def str_def)

lemma content_str_raises_iff:
  "(\<exists>e. content_str d = Inl e) \<longleftrightarrow>
     (cd_type d = str ''arxiv'' \<and> cd_authors d = PyNone) \<or>
     (cd_type d \<noteq> str ''arxiv'' \<and> cd_type d \<noteq> str ''tweet'' \<and> cd_content d = PyNone)"
  by (cases "cd_authors d"; cases "cd_content d") (auto simp: content_str_def)

text \<open>
  The parts of C7 that hold. Whenever \<^verbatim>\<open>create_analysis_prompt\<close> returns, its result is the fixed preamble followed
  by the content block of the record, and it returns for every record except a paper record
  whose authors are \<^verbatim>\<open>None\<close> and a record of another type than \<^verbatim>\<open>arxiv\<close> and \<^verbatim>\<open>tweet\<close> whose content is
  \<^verbatim>\<open>None\<close>. The headers of the preamble are exactly the ten sections one-liner, key innovation,
  why it matters, main insights, how it works, key results, limitations, connections, who
  should read this and TLDR, in this order, and then the question whether to read the full
  version. For a paper record with title \<^verbatim>\<open>Example Paper\<close>, authors \<^verbatim>\<open>A. One\<close> and \<^verbatim>\<open>B. Two\<close> and an
  abstract, the content block contains \<^verbatim>\<open>PAPER: Example Paper\<close>, \<^verbatim>\<open>AUTHORS: A. One, B. Two\<close>, the URL
  and the abstract as it is.
\<close>

lemma create_analysis_prompt_template:
  "(create_analysis_prompt d = Inr p \<longrightarrow> (\<exists>c. content_str d = Inr c \<and> p = base_prompt @ c)) \<and>
   ((\<exists>e. create_analysis_prompt d = Inl e) \<longleftrightarrow>
      (cd_type d = str ''arxiv'' \<and> cd_authors d = PyNone) \<or>
      (cd_type d \<noteq> str ''arxiv'' \<and> cd_type d \<noteq> str ''tweet'' \<and> cd_content d = PyNone)) \<and>
   header_lines base_prompt =
     [str ''## '' @ [0x1F4DD] @ str '' ONE-LINER'',
      str ''## '' @ [0x1F680] @ str '' KEY INNOVATION'',
      str ''## '' @ [0x1F4A1] @ str '' WHY IT MATTERS'',
      str ''## '' @ [0x1F50D] @ str '' MAIN INSIGHTS'',
      str ''## '' @ [0x2699] @ [0xFE0F] @ str '' HOW IT WORKS'',
      str ''## '' @ [0x1F4CA] @ str '' KEY RESULTS'',
      str ''## '' @ [0x26A0] @ [0xFE0F] @ str '' LIMITATIONS'',
      str ''## '' @ [0x1F517] @ str '' CONNECTIONS'',
      str ''## '' @ [0x1F3AF] @ str '' WHO SHOULD READ THIS'',
      str ''## '' @ [0x1F4CC] @ str '' TLDR'',
      str ''## '' @ [0x1F914] @ str '' SHOULD YOU READ THE FULL VERSION?''] \<and>
   (\<exists>c. create_analysis_prompt
           \<lparr>cd_url = u, cd_type = str ''arxiv'', cd_content = Missing, cd_needs_paste = False,
            cd_title = Val (str ''Example Paper''),
            cd_authors = Val [str ''A. One'', str ''B. Two''], cd_abstract = Val a\<rparr>
         = Inr (base_prompt @ c) \<and>
        c = str ''\<newline>PAPER: Example Paper\<newline>AUTHORS: A. One, B. Two\<newline>URL: '' @ u
            @ str ''\<newline>\<newline>ABSTRACT:\<newline>'' @ a @ str ''\<newline>'' \<and>
        contains (str ''PAPER: Example Paper'') c \<and>
        contains (str ''AUTHORS: A. One, B. Two'') c \<and>
        contains u c \<and> contains a c)"
proof (intro conjI)
  show "create_analysis_prompt d = Inr p \<longrightarrow> (\<exists>c. content_str d = Inr c \<and> p = base_prompt @ c)"
    by (auto simp: create_analysis_prompt_def split: sum.splits)
next
  have "(\<exists>e. create_analysis_prompt d = Inl e) \<longleftrightarrow> (\<exists>e. content_str d = Inl e)"
    by (auto simp: create_analysis_prompt_def split: sum.splits)
  then show "(\<exists>e. create_analysis_prompt d = Inl e) \<longleftrightarrow>
      (cd_type d = str ''arxiv'' \<and> cd_authors d = PyNone) \<or>
      (cd_type d \<noteq> str ''arxiv'' \<and> cd_type d \<noteq> str ''tweet'' \<and> cd_content d = PyNone)"
    by (simp only: content_str_raises_iff)
next
  show "header_lines base_prompt =
     [str ''## '' @ [0x1F4DD] @ str '' ONE-LINER'',
      str ''## '' @ [0x1F680] @ str '' KEY INNOVATION'',
      str ''## '' @ [0x1F4A1] @ str '' WHY IT MATTERS'',
      str ''## '' @ [0x1F50D] @ str '' MAIN INSIGHTS'',
      str ''## '' @ [0x2699] @ [0xFE0F] @ str '' HOW IT WORKS'',
      str ''## '' @ [0x1F4CA] @ str '' KEY RESULTS'',
      str ''## '' @ [0x26A0] @ [0xFE0F] @ str '' LIMITATIONS'',
      str ''## '' @ [0x1F517] @ str '' CONNECTIONS'',
      str ''## '' @ [0x1F3AF] @ str '' WHO SHOULD READ THIS'',
      str ''## '' @ [0x1F4CC] @ str '' TLDR'',
      str ''## '' @ [0x1F914] @ str '' SHOULD YOU READ THE FULL VERSION?'']"
    by (rule base_prompt_header_lines)
next
  define c where "c = str ''\<newline>PAPER: Example Paper\<newline>AUTHORS: A. One, B. Two\<newline>URL: '' @ u
            @ str ''\<newline>\<newline>ABSTRACT:\<newline>'' @ a @ str ''\<newline>''"
  have 1: "create_analysis_prompt
           \<lparr>cd_url = u, cd_type = str ''arxiv'', cd_content = Missing, cd_needs_paste = False,
            cd_title = Val (str ''Example Paper''),
            cd_authors = Val [str ''A. One'', str ''B. Two''], cd_abstract = Val a\<rparr>
         = Inr (base_prompt @ c)"
    by (simp add: create_analysis_prompt_def content_str_def c_def) (simp add: str_def)
  have 2: "c = str ''\<newline>'' @ str ''PAPER: Example Paper''
      @ (str ''\<newline>AUTHORS: A. One, B. Two\<newline>URL: '' @ u
            @ str ''\<newline>\<newline>ABSTRACT:\<newline>'' @ a @ str ''\<newline>'')"
    by (simp add: c_def str_def)
  have 3: "c = str ''\<newline>PAPER: Example Paper\<newline>'' @ str ''AUTHORS: A. One, B. Two''
      @ (str ''\<newline>URL: '' @ u @ str ''\<newline>\<newline>ABSTRACT:\<newline>'' @ a @ str ''\<newline>'')"
    by (simp add: c_def str_def)
  have 4: "c = (str ''\<newline>PAPER: Example Paper\<newline>AUTHORS: A. One, B. Two\<newline>URL: '') @ u
            @ (str ''\<newline>\<newline>ABSTRACT:\<newline>'' @ a @ str ''\<newline>'')"
    by (simp add: c_def)
  have 5: "c = (str ''\<newline>PAPER: Example Paper\<newline>AUTHORS: A. One, B. Two\<newline>URL: '' @ u
            @ str ''\<newline>\<newline>ABSTRACT:\<newline>'') @ a @ str ''\<newline>''"
    by (simp add: c_def)
  have "contains (str ''PAPER: Example Paper'') c" by (subst 2) (rule contains_middle)
  moreover have "contains (str ''AUTHORS: A. One, B. Two'') c" by (subst 3) (rule contains_middle)
  moreover have "contains u c" by (subst 4) (rule contains_middle)
  moreover have "contains a c" by (subst 5) (rule contains_middle)
  ultimately show "\<exists>c. create_analysis_prompt
           \<lparr>cd_url = u, cd_type = str ''arxiv'', cd_content = Missing, cd_needs_paste = False,
            cd_title = Val (str ''Example Paper''),
            cd_authors = Val [str ''A. One'', str ''B. Two''], cd_abstract = Val a\<rparr>
         = Inr (base_prompt @ c) \<and>
        c = str ''\<newline>PAPER: Example Paper\<newline>AUTHORS: A. One, B. Two\<newline>URL: '' @ u
            @ str ''\<newline>\<newline>ABSTRACT:\<newline>'' @ a @ str ''\<newline>'' \<and>
        contains (str ''PAPER: Example Paper'') c \<and>
        contains (str ''AUTHORS: A. One, B. Two'') c \<and>
        contains u c \<and> contains a c"
    using 1 c_def by blast
qed

lemma example_paper_fetch:
  "fetch_content example_env (str ''https://arxiv.org/abs/2301.00001'') =
     (\<lparr>cd_url = str ''https://arxiv.org/abs/2301.00001'', cd_type = str ''arxiv'',
       cd_content = Missing, cd_needs_paste = False, cd_title = Val (str ''Example Paper''),
       cd_authors = Val [str ''A. One'', str ''B. Two''],
       cd_abstract = Val (str ''This paper...'')\<rparr>,
      [ArxivSearch (str ''2301.00001'')])"
proof -
  have a: "contains (str ''arxiv.org'') (str ''https://arxiv.org/abs/2301.00001'')"
    by (simp add: str_def)
  have b: "paper_id (str ''https://arxiv.org/abs/2301.00001'') = str ''2301.00001''"
    by (simp add: paper_id_def split_py_def str_def)
  show ?thesis
    by (simp add: fetch_content_def a fetch_arxiv_def b example_env_def example_paper_def)
qed

lemma create_analysis_prompt_template_example:
  "create_analysis_prompt (fst (fetch_content example_env (str ''https://arxiv.org/abs/2301.00001'')))
     = Inr (base_prompt
            @ str ''\<newline>PAPER: Example Paper\<newline>AUTHORS: A. One, B. Two\<newline>URL: ''
            @ str ''https://arxiv.org/abs/2301.00001''
            @ str ''\<newline>\<newline>ABSTRACT:\<newline>'' @ str ''This paper...'' @ str ''\<newline>'') \<and>
   content_str (fst (fetch_content example_env (str ''https://arxiv.org/abs/2301.00001'')))
     = Inr (str ''\<newline>PAPER: Example Paper\<newline>AUTHORS: A. One, B. Two\<newline>URL: ''
            @ str ''https://arxiv.org/abs/2301.00001''
            @ str ''\<newline>\<newline>ABSTRACT:\<newline>'' @ str ''This paper...'' @ str ''\<newline>'')"
proof -
  let ?d = "fst (fetch_content example_env (str ''https://arxiv.org/abs/2301.00001''))"
  let ?c = "str ''\<newline>PAPER: Example Paper\<newline>AUTHORS: A. One, B. Two\<newline>URL: ''
            @ str ''https://arxiv.org/abs/2301.00001''
            @ str ''\<newline>\<newline>ABSTRACT:\<newline>'' @ str ''This paper...'' @ str ''\<newline>''"
  have p: "create_analysis_prompt ?d = Inr (base_prompt @ ?c)"
    by (simp add: example_paper_fetch create_analysis_prompt_def content_str_def)
       (simp add: str_def)
  from create_analysis_prompt_template [of ?d "base_prompt @ ?c"] p
  obtain c where "content_str ?d = Inr c" "base_prompt @ ?c = base_prompt @ c"
    by blast
  then have "content_str ?d = Inr ?c" by simp
  with p show ?thesis by blast
qed

text \<open>
  C7 says that for every record the result of \<^verbatim>\<open>create_analysis_prompt\<close> is the preamble
  followed by a content block. For the record that \<^verbatim>\<open>fetch_content\<close> builds after a fetch that
  ended in an error status, type \<^verbatim>\<open>unknown\<close> with content \<^verbatim>\<open>None\<close>, the method returns no prompt
  at all: the slice \<^verbatim>\<open>[:10000]\<close> of \<^verbatim>\<open>None\<close> raises TypeError.
\<close>

theorem create_analysis_prompt_raises_after_failed_fetch:
  "fst (fetch_content not_found_env (str ''http://example.com/page'')) =
     \<lparr>cd_url = str ''http://example.com/page'', cd_type = str ''unknown'', cd_content = PyNone,
      cd_needs_paste = True, cd_title = Missing, cd_authors = Missing, cd_abstract = Missing\<rparr> \<and>
   create_analysis_prompt (fst (fetch_content not_found_env (str ''http://example.com/page''))) =
     Inl (TypeError ([39] @ str ''NoneType'' @ [39] @ str '' object is not subscriptable'')) \<and>
   \<not> (\<exists>c. create_analysis_prompt (fst (fetch_content not_found_env (str ''http://example.com/page'')))
          = Inr (base_prompt @ c))"
proof -
  have b: "fst (fetch_content not_found_env (str ''http://example.com/page'')) =
     \<lparr>cd_url = str ''http://example.com/page'', cd_type = str ''unknown'', cd_content = PyNone,
      cd_needs_paste = True, cd_title = Missing, cd_authors = Missing, cd_abstract = Missing\<rparr>"
    by (simp add: fetch_content_def fetch_html_def not_found_env_def) (simp add: str_def)
  have c: "create_analysis_prompt (fst (fetch_content not_found_env (str ''http://example.com/page''))) =
     Inl (TypeError ([39] @ str ''NoneType'' @ [39] @ str '' object is not subscriptable''))"
    by (simp add: b create_analysis_prompt_def content_str_def type_names_distinct)
  from b c show ?thesis by simp
qed

section \<open>Absent content in the prompt\<close>

text \<open>
  What \<^verbatim>\<open>create_analysis_prompt\<close> does with the content of a record in general: the value
  \<^verbatim>\<open>None\<close> prints as \<^verbatim>\<open>None\<close> in a tweet record and raises in a record of an unnamed type, and only
  a missing key gives the placeholder.
\<close>

lemma none_content_in_prompt:
  "cd_content d = PyNone \<Longrightarrow> cd_type d = str ''tweet'' \<Longrightarrow>
     create_analysis_prompt d =
       Inr (base_prompt @ str ''\<newline>TWEET/THREAD from '' @ cd_url d @ str '':\<newline>None\<newline>'')"
  "cd_content d = PyNone \<Longrightarrow> cd_type d \<noteq> str ''tweet'' \<Longrightarrow> cd_type d \<noteq> str ''arxiv'' \<Longrightarrow>
     create_analysis_prompt d
       = Inl (TypeError ([39] @ str ''NoneType'' @ [39] @ str '' object is not subscriptable''))"
  "cd_content d = Missing \<Longrightarrow> cd_type d = str ''tweet'' \<Longrightarrow>
     create_analysis_prompt d =
       Inr (base_prompt @ str ''\<newline>TWEET/THREAD from '' @ cd_url d
            @ str '':\<newline>Content not provided\<newline>'')"
  by (simp_all add: create_analysis_prompt_def content_str_def type_names_distinct)
     (simp_all add: str_def)

lemma base_prompt_without_placeholder:
  "\<not> contains (str ''Content not provided'')
       (base_prompt @ str ''\<newline>TWEET/THREAD from https://x.com/user/status/1:\<newline>None\<newline>'')"
  by (simp add: base_prompt_def base_prompt_lines_def unlines_def str_def)

text \<open>
  C8 says that a record whose body text is absent is formatted with the placeholder
  \<^verbatim>\<open>Content not provided\<close>, without an error. The records of \<^verbatim>\<open>fetch_content\<close> hold the key
  \<^verbatim>\<open>content\<close> with the value \<^verbatim>\<open>None\<close>, and \<^verbatim>\<open>dict.get\<close> gives its default for a missing key only.
  So the prompt of the tweet record shows \<^verbatim>\<open>None\<close> and holds the placeholder nowhere, and
  formatting the record of a failed fetch raises TypeError at the slice \<^verbatim>\<open>[:10000]\<close>.
\<close>

theorem none_content_not_replaced_by_placeholder:
  "create_analysis_prompt (fst (fetch_content offline_env (str ''https://x.com/user/status/1''))) =
     Inr (base_prompt @ str ''\<newline>TWEET/THREAD from https://x.com/user/status/1:\<newline>None\<newline>'') \<and>
   \<not> contains (str ''Content not provided'')
       (base_prompt @ str ''\<newline>TWEET/THREAD from https://x.com/user/status/1:\<newline>None\<newline>'') \<and>
   create_analysis_prompt (fst (fetch_content offline_env (str ''http://example.com/page''))) =
     Inl (TypeError ([39] @ str ''NoneType'' @ [39] @ str '' object is not subscriptable''))"
proof -
  have a: "create_analysis_prompt (fst (fetch_content offline_env (str ''https://x.com/user/status/1''))) =
     Inr (base_prompt @ str ''\<newline>TWEET/THREAD from https://x.com/user/status/1:\<newline>None\<newline>'')"
    by (simp add: tweet_example_fetch create_analysis_prompt_def content_str_def type_names_distinct)
       (simp add: str_def)
  have b: "fst (fetch_content offline_env (str ''http://example.com/page'')) =
     \<lparr>cd_url = str ''http://example.com/page'', cd_type = str ''unknown'', cd_content = PyNone,
      cd_needs_paste = True, cd_title = Missing, cd_authors = Missing, cd_abstract = Missing\<rparr>"
    by (simp add: fetch_content_def fetch_html_def offline_env_def) (simp add: str_def)
  have c: "create_analysis_prompt (fst (fetch_content offline_env (str ''http://example.com/page''))) =
     Inl (TypeError ([39] @ str ''NoneType'' @ [39] @ str '' object is not subscriptable''))"
    by (simp add: b create_analysis_prompt_def content_str_def type_names_distinct)
  from a base_prompt_without_placeholder c show ?thesis by blast
qed

section \<open>Formatting twice\<close>

lemma create_analysis_prompt_st_run:
  "run_state create_analysis_prompt_st d = (create_analysis_prompt d, d)"
  by (cases "cd_authors d"; cases "cd_content d")
     (simp_all add: create_analysis_prompt_st_def getitem_def create_analysis_prompt_def
        content_str_def)

text \<open>
  C9. Formatting leaves the dict as it was, and two calls of the formatter on the same
  dict, one after the other, give the same result, prompt or error.
\<close>

theorem format_twice_same_prompt:
  "snd (run_state create_analysis_prompt_st d) = d \<and>
   run_state format_twice d = ((create_analysis_prompt d, create_analysis_prompt d), d) \<and>
   fst (fst (run_state format_twice d)) = snd (fst (run_state format_twice d))"
  by (simp add: format_twice_def create_analysis_prompt_st_run)

theorem format_twice_same_prompt_witness:
  "run_state format_twice (fst (fetch_content example_env (str ''https://arxiv.org/abs/2301.00001''))) =
     ((Inr (base_prompt
            @ str ''\<newline>PAPER: Example Paper\<newline>AUTHORS: A. One, B. Two\<newline>URL: ''
            @ str ''https://arxiv.org/abs/2301.00001''
            @ str ''\<newline>\<newline>ABSTRACT:\<newline>'' @ str ''This paper...'' @ str ''\<newline>''),
       Inr (base_prompt
            @ str ''\<newline>PAPER: Example Paper\<newline>AUTHORS: A. One, B. Two\<newline>URL: ''
            @ str ''https://arxiv.org/abs/2301.00001''
            @ str ''\<newline>\<newline>ABSTRACT:\<newline>'' @ str ''This paper...'' @ str ''\<newline>'')),
      fst (fetch_content example_env (str ''https://arxiv.org/abs/2301.00001'')))"
proof -
  have p: "create_analysis_prompt (fst (fetch_content example_env (str ''https://arxiv.org/abs/2301.00001'')))
     = Inr (base_prompt
            @ str ''\<newline>PAPER: Example Paper\<newline>AUTHORS: A. One, B. Two\<newline>URL: ''
            @ str ''https://arxiv.org/abs/2301.00001''
            @ str ''\<newline>\<newline>ABSTRACT:\<newline>'' @ str ''This paper...'' @ str ''\<newline>'')"
    by (simp add: example_paper_fetch create_analysis_prompt_def content_str_def)
       (simp add: str_def)
  show ?thesis
    using p format_twice_same_prompt
      [of "fst (fetch_content example_env (str ''https://arxiv.org/abs/2301.00001''))"]
    by simp
qed

text \<open>
  The property is one of the formatter, not of every computation on the dict: with the
  assignment of \<^verbatim>\<open>analyze\<close> between the two calls, the dict changes and the prompts differ.
\<close>

lemma format_paste_format_differs:
  "run_state (format_paste_format (str ''hello''))
       (fst (fetch_content offline_env (str ''https://x.com/user/status/1''))) =
     ((Inr (base_prompt @ str ''\<newline>TWEET/THREAD from https://x.com/user/status/1:\<newline>None\<newline>''),
       Inr (base_prompt @ str ''\<newline>TWEET/THREAD from https://x.com/user/status/1:\<newline>hello\<newline>'')),
      (fst (fetch_content offline_env (str ''https://x.com/user/status/1'')))\<lparr>cd_content := Val (str ''hello'')\<rparr>)"
  by (simp add: format_paste_format_def create_analysis_prompt_st_run setitem_content_def
      tweet_example_fetch create_analysis_prompt_def content_str_def type_names_distinct)
     (simp add: str_def)

section \<open>analyze always returns\<close>

text \<open>
  Inside \<^verbatim>\<open>analyze\<close> the prompt is only made from a record that \<^verbatim>\<open>create_analysis_prompt\<close> can
  format, so no exception leaves \<^verbatim>\<open>analyze\<close>: it returns a string in every run.
\<close>

lemma fetched_record_formats:
  "\<not> cd_needs_paste (fst (fetch_content env u)) \<Longrightarrow>
   \<exists>p. create_analysis_prompt (fst (fetch_content env u)) = Inr p"
  by (simp add: fetch_content_def fetch_arxiv_def fetch_html_def create_analysis_prompt_def
      content_str_def type_names_distinct split: sum.splits if_splits)

lemma pasted_record_formats:
  "cd_needs_paste (fst (fetch_content env u)) \<Longrightarrow>
   \<exists>p. create_analysis_prompt ((fst (fetch_content env u))\<lparr>cd_content := Val s\<rparr>) = Inr p"
  by (simp add: fetch_content_def fetch_arxiv_def fetch_html_def create_analysis_prompt_def
      content_str_def type_names_distinct split: sum.splits if_splits)

lemma analyze_returns: "\<exists>s. an_result (analyze env u pasted_content) = Inr s"
proof -
  obtain d fetched where f: "fetch_content env u = (d, fetched)"
    by (cases "fetch_content env u")
  show ?thesis
  proof (cases "cd_needs_paste d")
    case True
    show ?thesis
    proof (cases "truthy pasted_content")
      case t: True
      then obtain s where s: "pasted_content = Some s" by (cases pasted_content) auto
      from pasted_record_formats [of env u s] True f
      obtain p where "create_analysis_prompt (d\<lparr>cd_content := Val s\<rparr>) = Inr p" by auto
      with True t s f show ?thesis
        by (simp add: analyze_def Let_def prompt_and_call_def)
    next
      case False
      with True f show ?thesis by (simp add: analyze_def Let_def)
    qed
  next
    case False
    from fetched_record_formats [of env u] False f
    obtain p where "create_analysis_prompt d = Inr p" by auto
    with False f show ?thesis
      by (simp add: analyze_def Let_def prompt_and_call_def)
  qed
qed

end
